theory Spec2Isabelle
  imports Complex_Main
begin

section \<open>Values\<close>

text \<open>
  A Python \<open>str\<close> is a sequence of Unicode code points; a code point is a natural number.
  A Python \<open>float\<close> that is finite is a rational number (every finite binary64 value is
  one); infinities and NaN are outside this model.
\<close>

type_synonym pystr = "nat list"
type_synonym pyfloat = rat

subsection \<open>Float arithmetic\<close>

text \<open>
  Python computes \<open>+\<close>, \<open>-\<close>, \<open>*\<close> and \<open>/\<close> on floats exactly and then rounds to
  the nearest binary64 value, ties to the even significand. \<open>fl\<close> is that rounding: a
  significand of 53 bits, the quantum \<open>2 ^ (e - 52)\<close> for \<open>2 ^ e \<le> \<bar>x\<bar> < 2 ^ (e + 1)\<close>, and
  the fixed quantum \<open>2 ^ - 1074\<close> below the normal range. Overflow to infinity is not
  modelled. A float literal such as \<open>0.0945\<close> is \<open>fl (945 / 10000)\<close>.
\<close>

definition round_half_even :: "rat \<Rightarrow> int" where
  "round_half_even x =
     (let f = \<lfloor>x\<rfloor>; r = x - of_int f in
      if r < 1 / 2 then f else if 1 / 2 < r then f + 1 else if even f then f else f + 1)"

fun bit_length :: "nat \<Rightarrow> nat" where
  "bit_length n = (if n = 0 then 0 else Suc (bit_length (n div 2)))"

text \<open>The exponent \<open>e\<close> with \<open>2 ^ e \<le> \<bar>x\<bar> < 2 ^ (e + 1)\<close>, for \<open>x \<noteq> 0\<close>.\<close>

definition exponente :: "rat \<Rightarrow> int" where
  "exponente x =
     (if 1 \<le> \<bar>x\<bar> then int (bit_length (nat \<lfloor>\<bar>x\<bar>\<rfloor>)) - 1
      else - int (bit_length (nat (\<lceil>1 / \<bar>x\<bar>\<rceil> - 1))))"

definition fl :: "rat \<Rightarrow> pyfloat" where
  "fl x =
     (if x = 0 then 0
      else let q = power_int 2 (max (exponente x) (- 1022) - 52)
           in of_int (round_half_even (x / q)) * q)"

text \<open>
  \<open>round(x, 2)\<close> on a float: the exact value of \<open>x\<close> is rounded to two decimal places,
  a tie going to the even last digit, and the decimal result is read back as a float.
\<close>

definition py_round2 :: "pyfloat \<Rightarrow> pyfloat" where
  "py_round2 x = fl (of_int (round_half_even (x * 100)) / 100)"

text \<open>
  The built-in \<open>sum\<close> and \<open>reduce(lambda a, b: a + b, xs, 0)\<close>: accumulation from \<open>0\<close>, left
  to right, with float addition. (From CPython 3.12 on, \<open>sum\<close> carries a compensation term
  for the rounding errors of the additions; where no addition rounds, as in the example
  payroll below, the two agree.)
\<close>

definition py_sum :: "pyfloat list \<Rightarrow> pyfloat" where
  "py_sum xs = foldl (\<lambda>a b. fl (a + b)) 0 xs"

subsection \<open>Strings\<close>

text \<open>
  \<open>str.strip()\<close> removes leading and trailing whitespace, where whitespace is what
  \<open>str.isspace\<close> accepts: the code points below.
\<close>

definition isspace :: "nat \<Rightarrow> bool" where
  "isspace c \<longleftrightarrow>
     (9 \<le> c \<and> c \<le> 13) \<or> (28 \<le> c \<and> c \<le> 32) \<or> c = 133 \<or> c = 160 \<or> c = 5760 \<or>
     (8192 \<le> c \<and> c \<le> 8202) \<or> c = 8232 \<or> c = 8233 \<or> c = 8239 \<or> c = 8287 \<or> c = 12288"

definition strip :: "pystr \<Rightarrow> pystr" where
  "strip s = rev (dropWhile isspace (rev (dropWhile isspace s)))"

text \<open>
  A string can be written to a UTF-8 file when none of its code points is a surrogate
  (\<open>U+D800\<close> to \<open>U+DFFF\<close>).
\<close>

definition codificable :: "pystr \<Rightarrow> bool" where
  "codificable s = list_all (\<lambda>c. c < 55296 \<or> 57343 < c) s"

text \<open>The ASCII text of a literal, as code points.\<close>

definition py_str :: "string \<Rightarrow> pystr" where
  "py_str s = map of_char s"

section \<open>Errors\<close>

text \<open>
  The program raises \<open>ValueError\<close> in four places; the first four constructors tell the
  raise statements apart. The specification calls the first two \<open>ValidationError\<close>, the
  third \<open>DuplicateKeyError\<close> and the fourth \<open>EmptyEmployeeSetError\<close>. The fifth is raised by
  the text stream that \<open>_guardar_datos\<close> writes to.
\<close>

datatype error =
    ValueError_texto_vacio
  | ValueError_numero_negativo
  | ValueError_cedula_duplicada pystr
  | ValueError_sin_empleados
  | UnicodeEncodeError

section \<open>The decorator \<open>validar_entrada\<close>\<close>

text \<open>
  The wrapper looks at the positional arguments after \<open>self\<close> only, in order, and raises at
  the first one that is an empty-after-strip \<open>str\<close> or a negative number. Keyword arguments
  are passed on to the wrapped function without being looked at.
\<close>

datatype arg = Str pystr | Num pyfloat

fun validar_entrada :: "arg list \<Rightarrow> error option" where
  "validar_entrada [] = None"
| "validar_entrada (Str s # rest) =
     (if strip s = [] then Some ValueError_texto_vacio else validar_entrada rest)"
| "validar_entrada (Num x # rest) =
     (if x < 0 then Some ValueError_numero_negativo else validar_entrada rest)"

section \<open>The model \<open>Empleado\<close>\<close>

record Empleado =
  cedula :: pystr
  nombre :: pystr
  sueldo :: pyfloat
  departamento :: pystr
  cargo :: pystr

text \<open>
  A call of the constructor binds the five parameters \<open>cedula\<close>, \<open>nombre\<close>, \<open>sueldo\<close>,
  \<open>departamento\<close>, \<open>cargo\<close>, the first \<open>k\<close> of them positionally and the others by keyword
  (\<open>k = 5\<close> is \<open>Empleado(c, n, s, d, g)\<close>, \<open>k = 0\<close> is \<open>Empleado(**data)\<close>). The positional
  ones are what the wrapper of \<open>validar_entrada\<close> receives as \<open>args[1:]\<close>. When the wrapper
  raises, \<open>__init__\<close> has not run and no field is set: there is no object.
\<close>

definition Empleado_init ::
  "nat \<Rightarrow> pystr \<Rightarrow> pystr \<Rightarrow> pyfloat \<Rightarrow> pystr \<Rightarrow> pystr \<Rightarrow> error + Empleado" where
  "Empleado_init k c n s d g =
     (case validar_entrada (take k [Str c, Str n, Num s, Str d, Str g]) of
        Some err \<Rightarrow> Inl err
      | None \<Rightarrow> Inr \<lparr>cedula = c, nombre = n, sueldo = s, departamento = d, cargo = g\<rparr>)"

section \<open>The repository of employees\<close>

text \<open>
  A record is the dictionary \<open>empleado.__dict__\<close>: the five keys of the persisted
  snapshot, each with a value of the type its field is annotated with.
\<close>

record registro =
  r_cedula :: pystr
  r_nombre :: pystr
  r_sueldo :: pyfloat
  r_departamento :: pystr
  r_cargo :: pystr

definition registro_codificable :: "registro \<Rightarrow> bool" where
  "registro_codificable r \<longleftrightarrow>
     codificable (r_cedula r) \<and> codificable (r_nombre r) \<and>
     codificable (r_departamento r) \<and> codificable (r_cargo r)"

text \<open>
  The file is UTF-8 text written by \<open>json.dump\<close> with \<open>ensure_ascii=False\<close>. What such a
  file holds is a list of records whose text is all encodable: \<open>contenido\<close>. The snapshot
  that an operation starts from is a file that is absent or holds such a list.
\<close>

typedef contenido = "{datos :: registro list. list_all registro_codificable datos}"
  morphisms registros Contenido
  by (rule exI [of _ "[]"]) simp

type_synonym archivo = "contenido option"

definition cargar_datos :: "archivo \<Rightarrow> registro list" where
  "cargar_datos f = (case f of None \<Rightarrow> [] | Some c \<Rightarrow> registros c)"

text \<open>
  After an operation the file is a snapshot again, or it is \<open>Truncado\<close>: it exists and
  holds the beginning of a JSON text, which \<open>json.load\<close> does not accept.

  \<open>_guardar_datos\<close> opens the file for writing, which empties it, and \<open>json.dump\<close> then
  writes the list piece by piece into a strict UTF-8 stream. When all the text is
  encodable the file holds the list. Otherwise the stream raises \<open>UnicodeEncodeError\<close> at
  the first string it cannot encode and the file keeps what was written before it.
\<close>

datatype estado = Integro archivo | Truncado

definition guardar_datos :: "registro list \<Rightarrow> error option \<times> estado" where
  "guardar_datos datos =
     (if list_all registro_codificable datos then (None, Integro (Some (Contenido datos)))
      else (Some UnicodeEncodeError, Truncado))"

definition serializar :: "Empleado \<Rightarrow> registro" where
  "serializar e =
     \<lparr>r_cedula = cedula e, r_nombre = nombre e, r_sueldo = sueldo e,
      r_departamento = departamento e, r_cargo = cargo e\<rparr>"

text \<open>\<open>Empleado(**data)\<close>: every parameter is bound by keyword.\<close>

definition deserializar :: "registro \<Rightarrow> error + Empleado" where
  "deserializar data =
     Empleado_init 0 (r_cedula data) (r_nombre data) (r_sueldo data)
       (r_departamento data) (r_cargo data)"

text \<open>
  Each operation takes the snapshot and returns its result with the state of the file
  afterwards. An operation that raises or returns before \<open>_guardar_datos\<close> leaves the file
  as it was; an error of \<open>_guardar_datos\<close> goes through to the caller.
\<close>

definition crear :: "Empleado \<Rightarrow> archivo \<Rightarrow> (error + bool) \<times> estado" where
  "crear empleado f =
     (let datos = cargar_datos f in
      if list_ex (\<lambda>emp. r_cedula emp = cedula empleado) datos
      then (Inl (ValueError_cedula_duplicada (cedula empleado)), Integro f)
      else (case guardar_datos (datos @ [serializar empleado]) of
              (Some err, g) \<Rightarrow> (Inl err, g)
            | (None, g) \<Rightarrow> (Inr True, g)))"

definition obtener :: "pystr \<Rightarrow> archivo \<Rightarrow> error + Empleado option" where
  "obtener c f =
     (case find (\<lambda>e. r_cedula e = c) (cargar_datos f) of
        None \<Rightarrow> Inr None
      | Some emp \<Rightarrow> (case deserializar emp of Inl err \<Rightarrow> Inl err | Inr e \<Rightarrow> Inr (Some e)))"

fun deserializar_todos :: "registro list \<Rightarrow> error + Empleado list" where
  "deserializar_todos [] = Inr []"
| "deserializar_todos (emp # rest) =
     (case deserializar emp of
        Inl err \<Rightarrow> Inl err
      | Inr e \<Rightarrow> (case deserializar_todos rest of Inl err \<Rightarrow> Inl err | Inr es \<Rightarrow> Inr (e # es)))"

definition listar :: "archivo \<Rightarrow> error + Empleado list" where
  "listar f = deserializar_todos (cargar_datos f)"

text \<open>
  The loop of \<open>actualizar\<close> over \<open>enumerate(datos)\<close>: the index of the first record whose
  key matches, counted from \<open>i\<close>.
\<close>

fun primer_indice :: "pystr \<Rightarrow> registro list \<Rightarrow> nat \<Rightarrow> nat option" where
  "primer_indice c [] i = None"
| "primer_indice c (emp # rest) i =
     (if r_cedula emp = c then Some i else primer_indice c rest (Suc i))"

definition actualizar :: "pystr \<Rightarrow> Empleado \<Rightarrow> archivo \<Rightarrow> (error + bool) \<times> estado" where
  "actualizar c empleado f =
     (let datos = cargar_datos f in
      case primer_indice c datos 0 of
        Some i \<Rightarrow>
          (case guardar_datos (datos[i := serializar empleado]) of
             (Some err, g) \<Rightarrow> (Inl err, g)
           | (None, g) \<Rightarrow> (Inr True, g))
      | None \<Rightarrow> (Inr False, Integro f))"

definition eliminar :: "pystr \<Rightarrow> archivo \<Rightarrow> (error + bool) \<times> estado" where
  "eliminar c f =
     (let datos = cargar_datos f;
          filtrados = filter (\<lambda>emp. r_cedula emp \<noteq> c) datos in
      if length filtrados < length datos
      then (case guardar_datos filtrados of
              (Some err, g) \<Rightarrow> (Inl err, g)
            | (None, g) \<Rightarrow> (Inr True, g))
      else (Inr False, Integro f))"

text \<open>The keys of the stored records, in order.\<close>

definition claves :: "archivo \<Rightarrow> pystr list" where
  "claves f = map r_cedula (cargar_datos f)"

section \<open>Payroll\<close>

record DetalleNomina =
  d_id :: int
  d_empleado :: Empleado
  d_sueldo :: pyfloat
  d_bono :: pyfloat
  d_tot_ing :: pyfloat
  d_iess :: pyfloat
  d_prestamo :: pyfloat
  d_tot_des :: pyfloat
  d_neto :: pyfloat

definition DetalleNomina_init ::
  "int \<Rightarrow> Empleado \<Rightarrow> pyfloat \<Rightarrow> pyfloat \<Rightarrow> pyfloat \<Rightarrow> DetalleNomina" where
  "DetalleNomina_init i empleado s bono prestamo =
     (let tot_ing = fl (s + bono);
          iess = py_round2 (fl (s * fl (945 / 10000)));
          tot_des = fl (iess + prestamo);
          neto = fl (tot_ing - tot_des)
      in \<lparr>d_id = i, d_empleado = empleado, d_sueldo = s, d_bono = bono, d_tot_ing = tot_ing,
          d_iess = iess, d_prestamo = prestamo, d_tot_des = tot_des, d_neto = neto\<rparr>)"

record Nomina =
  n_id :: int
  n_aniomes :: pystr
  n_tot_ing :: pyfloat
  n_tot_des :: pyfloat
  n_neto :: pyfloat
  n_detalles :: "DetalleNomina list"

definition BONO :: pyfloat where
  "BONO = 50"

definition PRESTAMO :: pyfloat where
  "PRESTAMO = 20"

definition Nomina_init :: "int \<Rightarrow> pystr \<Rightarrow> Nomina" where
  "Nomina_init i aniomes =
     \<lparr>n_id = i, n_aniomes = aniomes, n_tot_ing = 0, n_tot_des = 0, n_neto = 0, n_detalles = []\<rparr>"

definition calcular_totales :: "Nomina \<Rightarrow> Nomina" where
  "calcular_totales n =
     (let tot_ing = py_sum (map d_tot_ing (n_detalles n));
          tot_des = py_sum (map d_tot_des (n_detalles n))
      in n\<lparr>n_tot_ing := tot_ing, n_tot_des := tot_des, n_neto := fl (tot_ing - tot_des)\<rparr>)"

subsection \<open>The summary\<close>

text \<open>
  The summary is a dictionary from text keys to integers, floats and strings, kept in the
  order of the dictionary display.
\<close>

datatype valor = VInt int | VFloat pyfloat | VStr pystr

text \<open>
  \<open>max(xs, key=k)\<close> and \<open>min(xs, key=k)\<close> keep the first element among those with the
  greatest (least) key: a later element replaces the current one only when its key is
  strictly greater (less).
\<close>

fun max_key :: "('a \<Rightarrow> pyfloat) \<Rightarrow> 'a \<Rightarrow> 'a list \<Rightarrow> 'a" where
  "max_key k m [] = m"
| "max_key k m (x # xs) = max_key k (if k m < k x then x else m) xs"

fun min_key :: "('a \<Rightarrow> pyfloat) \<Rightarrow> 'a \<Rightarrow> 'a list \<Rightarrow> 'a" where
  "min_key k m [] = m"
| "min_key k m (x # xs) = min_key k (if k x < k m then x else m) xs"

definition generar_estadisticas :: "Nomina \<Rightarrow> (string \<times> valor) list" where
  "generar_estadisticas n =
     (case n_detalles n of
        [] \<Rightarrow> [(''total_empleados'', VInt 0), (''promedio_sueldo'', VInt 0), (''total_neto'', VInt 0)]
      | d # ds \<Rightarrow>
          (let detalles = d # ds;
               netos = map d_neto detalles;
               sueldos = map d_sueldo detalles;
               total_neto = py_sum netos;
               promedio_sueldo = fl (py_sum sueldos / of_nat (length sueldos));
               empleados_alto_sueldo = filter (\<lambda>x. 1000 < d_sueldo x) detalles;
               mayor_neto = max_key d_neto d ds;
               menor_neto = min_key d_neto d ds
           in [(''total_empleados'', VInt (int (length detalles))),
               (''total_neto_pagado'', VFloat total_neto),
               (''promedio_sueldos'', VFloat (py_round2 promedio_sueldo)),
               (''empleados_alto_sueldo'', VInt (int (length empleados_alto_sueldo))),
               (''empleado_mayor_neto'', VStr (nombre (d_empleado mayor_neto))),
               (''empleado_menor_neto'', VStr (nombre (d_empleado menor_neto))),
               (''valor_mayor_neto'', VFloat (d_neto mayor_neto)),
               (''valor_menor_neto'', VFloat (d_neto menor_neto))]))"

section \<open>The payroll service\<close>

definition calcular_detalle_empleado :: "Empleado \<Rightarrow> int \<Rightarrow> DetalleNomina" where
  "calcular_detalle_empleado empleado id_detalle =
     DetalleNomina_init id_detalle empleado (sueldo empleado) BONO PRESTAMO"

text \<open>
  \<open>generar_nomina_mensual\<close> reads the file through \<open>listar\<close> and does not write it; an
  error of \<open>listar\<close> goes through to the caller.
\<close>

definition generar_nomina_mensual :: "pystr \<Rightarrow> archivo \<Rightarrow> error + Nomina" where
  "generar_nomina_mensual aniomes f =
     (case listar f of
        Inl err \<Rightarrow> Inl err
      | Inr empleados \<Rightarrow>
          if empleados = [] then Inl ValueError_sin_empleados
          else Inr (calcular_totales
                 ((Nomina_init 1 aniomes)
                    \<lparr>n_detalles :=
                       map (\<lambda>(i, emp). calcular_detalle_empleado emp (int i + 1))
                         (enumerate 0 empleados)\<rparr>)))"

section \<open>Example data\<close>

definition ana :: Empleado where
  "ana = \<lparr>cedula = py_str ''0101'', nombre = py_str ''Ana'', sueldo = 800,
          departamento = py_str ''Ventas'', cargo = py_str ''Cajera''\<rparr>"

definition luis :: Empleado where
  "luis = \<lparr>cedula = py_str ''0202'', nombre = py_str ''Luis'', sueldo = 1200,
           departamento = py_str ''Sistemas'', cargo = py_str ''Analista''\<rparr>"

definition uno :: archivo where
  "uno = Some (Contenido [serializar ana])"

definition dos :: archivo where
  "dos = Some (Contenido [serializar ana, serializar luis])"

text \<open>
  Two records under one key. The repository's own operations reach this file: two
  creations, then an update that stores an employee in another one's place.
\<close>

definition repetidos :: archivo where
  "repetidos = Some (Contenido [serializar luis, serializar luis])"

definition solo_luis :: archivo where
  "solo_luis = Some (Contenido [serializar luis])"

text \<open>The file that holds the empty list.\<close>

definition vacio :: archivo where
  "vacio = Some (Contenido [])"

text \<open>
  An employee whose key is the single code point \<open>U+D800\<close>, a lone surrogate; the
  constructor accepts it.
\<close>

definition sustituto :: Empleado where
  "sustituto = \<lparr>cedula = [55296], nombre = py_str ''Eva'', sueldo = 900,
                departamento = py_str ''Ventas'', cargo = py_str ''Cajera''\<rparr>"

text \<open>
  The invariant of an employee record: every text field non-empty after \<open>strip\<close>, the
  salary not negative.
\<close>

definition valido :: "Empleado \<Rightarrow> bool" where
  "valido e \<longleftrightarrow>
     strip (cedula e) \<noteq> [] \<and> strip (nombre e) \<noteq> [] \<and> 0 \<le> sueldo e \<and>
     strip (departamento e) \<noteq> [] \<and> strip (cargo e) \<noteq> []"

text \<open>A stored record that breaks the invariant in three fields.\<close>

definition registro_invalido :: registro where
  "registro_invalido =
     \<lparr>r_cedula = py_str '' '', r_nombre = [], r_sueldo = - 5, r_departamento = [],
      r_cargo = py_str ''Cajera''\<rparr>"

text \<open>
  The payroll of the specification's scenario: Ana with salary 800 and Luis with salary
  1200, bonus 50 and loan 20. A decimal such as \<open>75.6\<close> is the float \<open>fl (756 / 10)\<close>.
\<close>

definition nomina_ejemplo :: Nomina where
  "nomina_ejemplo =
     \<lparr>n_id = 1, n_aniomes = py_str ''202404'', n_tot_ing = 2100, n_tot_des = 229, n_neto = 1871,
      n_detalles =
        [\<lparr>d_id = 1, d_empleado = ana, d_sueldo = 800, d_bono = 50, d_tot_ing = 850,
          d_iess = fl (756 / 10), d_prestamo = 20, d_tot_des = fl (956 / 10),
          d_neto = fl (7544 / 10)\<rparr>,
         \<lparr>d_id = 2, d_empleado = luis, d_sueldo = 1200, d_bono = 50, d_tot_ing = 1250,
          d_iess = fl (1134 / 10), d_prestamo = 20, d_tot_des = fl (1334 / 10),
          d_neto = fl (11166 / 10)\<rparr>]\<rparr>"

section \<open>Properties of the repository\<close>

subsection \<open>Reading and writing\<close>

lemma registros_codificables: "list_all registro_codificable (registros c)"
  using registros [of c] by simp

lemma cargar_datos_codificables: "list_all registro_codificable (cargar_datos f)"
  by (cases f) (simp_all add: cargar_datos_def registros_codificables)

lemma cargar_Contenido:
  "list_all registro_codificable datos \<Longrightarrow> cargar_datos (Some (Contenido datos)) = datos"
  by (simp add: cargar_datos_def Contenido_inverse)

lemma cargar_None: "cargar_datos None = []"
  by (simp add: cargar_datos_def)

lemma guardar_codificable:
  "list_all registro_codificable datos \<Longrightarrow>
     guardar_datos datos = (None, Integro (Some (Contenido datos)))"
  by (simp add: guardar_datos_def)

lemma guardar_no_codificable:
  "\<not> list_all registro_codificable datos \<Longrightarrow>
     guardar_datos datos = (Some UnicodeEncodeError, Truncado)"
  by (simp add: guardar_datos_def)

lemma claves_None: "claves None = []"
  by (simp add: claves_def cargar_datos_def)

lemma claves_Contenido:
  "list_all registro_codificable datos \<Longrightarrow> claves (Some (Contenido datos)) = map r_cedula datos"
  by (simp add: claves_def cargar_Contenido)

lemma list_ex_claves:
  "list_ex (\<lambda>emp. r_cedula emp = c) (cargar_datos f) \<longleftrightarrow> c \<in> set (claves f)"
  by (auto simp: claves_def list_ex_iff)

lemma r_cedula_serializar: "r_cedula (serializar e) = cedula e"
  by (simp add: serializar_def)

lemma cedula_ana_luis: "cedula ana \<noteq> cedula luis"
  by (simp add: ana_def luis_def py_str_def)

lemma codificable_ana: "registro_codificable (serializar ana)"
  by (simp add: registro_codificable_def codificable_def serializar_def ana_def py_str_def)

lemma codificable_luis: "registro_codificable (serializar luis)"
  by (simp add: registro_codificable_def codificable_def serializar_def luis_def py_str_def)

lemma no_codificable_sustituto: "\<not> registro_codificable (serializar sustituto)"
  by (simp add: registro_codificable_def codificable_def serializar_def sustituto_def)

lemma cargar_uno: "cargar_datos uno = [serializar ana]"
  by (simp add: uno_def cargar_Contenido codificable_ana)

lemma cargar_dos: "cargar_datos dos = [serializar ana, serializar luis]"
  by (simp add: dos_def cargar_Contenido codificable_ana codificable_luis)

lemma cargar_repetidos: "cargar_datos repetidos = [serializar luis, serializar luis]"
  by (simp add: repetidos_def cargar_Contenido codificable_luis)

lemma cargar_solo_luis: "cargar_datos solo_luis = [serializar luis]"
  by (simp add: solo_luis_def cargar_Contenido codificable_luis)

lemma cargar_vacio: "cargar_datos vacio = []"
  by (simp add: vacio_def cargar_Contenido)

subsection \<open>Creation\<close>

lemma crear_presente:
  "cedula e \<in> set (claves f) \<Longrightarrow>
     crear e f = (Inl (ValueError_cedula_duplicada (cedula e)), Integro f)"
  by (simp add: crear_def list_ex_claves)

lemma crear_ausente:
  "cedula e \<notin> set (claves f) \<Longrightarrow> registro_codificable (serializar e) \<Longrightarrow>
     crear e f = (Inr True, Integro (Some (Contenido (cargar_datos f @ [serializar e]))))"
  by (simp add: crear_def list_ex_claves guardar_datos_def cargar_datos_codificables)

lemma crear_no_codificable:
  "cedula e \<notin> set (claves f) \<Longrightarrow> \<not> registro_codificable (serializar e) \<Longrightarrow>
     crear e f = (Inl UnicodeEncodeError, Truncado)"
  by (simp add: crear_def list_ex_claves guardar_datos_def)

text \<open>
  The file \<open>repetidos\<close> is reached from the absent file by two creations and an update.
\<close>

lemma repetidos_alcanzado:
  "crear ana None = (Inr True, Integro uno) \<and>
   crear luis uno = (Inr True, Integro dos) \<and>
   actualizar (cedula ana) luis dos = (Inr True, Integro repetidos)"
proof (intro conjI)
  show "crear ana None = (Inr True, Integro uno)"
    using crear_ausente [of ana None] by (simp add: claves_None codificable_ana cargar_None uno_def)
  have "cedula luis \<notin> set (claves uno)"
    using cedula_ana_luis by (simp add: claves_def cargar_uno r_cedula_serializar)
  then show "crear luis uno = (Inr True, Integro dos)"
    using crear_ausente [of luis uno] by (simp add: codificable_luis cargar_uno dos_def)
  show "actualizar (cedula ana) luis dos = (Inr True, Integro repetidos)"
    by (simp add: actualizar_def cargar_dos r_cedula_serializar guardar_datos_def
        codificable_luis repetidos_def)
qed

text \<open>
  Claim C4, as amended. When the file already holds a record with the key of \<open>e\<close>, \<open>crear\<close>
  raises the duplicate-key error and the file is what it was, with as many records of that
  key as before. When the key is absent and the text of \<open>e\<close> is encodable, \<open>crear\<close> returns
  \<open>True\<close> and the file is rewritten with the old records followed by the serialized \<open>e\<close>; a
  second creation under the same key then raises, changes nothing, and the file holds
  exactly one record for that key.
\<close>

theorem crear_duplicate_or_append:
  "(cedula e \<in> set (claves f) \<longrightarrow>
      crear e f = (Inl (ValueError_cedula_duplicada (cedula e)), Integro f)) \<and>
   (cedula e \<notin> set (claves f) \<and> registro_codificable (serializar e) \<longrightarrow>
      crear e f = (Inr True, Integro (Some (Contenido (cargar_datos f @ [serializar e])))) \<and>
      cargar_datos (Some (Contenido (cargar_datos f @ [serializar e]))) =
        cargar_datos f @ [serializar e] \<and>
      (cedula e' = cedula e \<longrightarrow>
         crear e' (Some (Contenido (cargar_datos f @ [serializar e]))) =
           (Inl (ValueError_cedula_duplicada (cedula e)),
            Integro (Some (Contenido (cargar_datos f @ [serializar e])))) \<and>
         count_list (claves (Some (Contenido (cargar_datos f @ [serializar e])))) (cedula e) = 1))"
proof (intro conjI impI)
  assume "cedula e \<in> set (claves f)"
  then show "crear e f = (Inl (ValueError_cedula_duplicada (cedula e)), Integro f)"
    by (rule crear_presente)
next
  assume a: "cedula e \<notin> set (claves f) \<and> registro_codificable (serializar e)"
  let ?g = "Some (Contenido (cargar_datos f @ [serializar e]))"
  have ok: "list_all registro_codificable (cargar_datos f @ [serializar e])"
    using a by (simp add: cargar_datos_codificables)
  show "crear e f = (Inr True, Integro ?g)"
    using a by (simp add: crear_ausente)
  show c: "cargar_datos ?g = cargar_datos f @ [serializar e]"
    using ok by (rule cargar_Contenido)
  assume k: "cedula e' = cedula e"
  have cl: "claves ?g = claves f @ [cedula e]"
    by (simp add: claves_def c r_cedula_serializar)
  then have "cedula e' \<in> set (claves ?g)" using k by simp
  then show "crear e' ?g = (Inl (ValueError_cedula_duplicada (cedula e)), Integro ?g)"
    using k crear_presente [of e' ?g] by simp
  show "count_list (claves ?g) (cedula e) = 1"
    using a by (simp add: cl count_list_0_iff)
qed

theorem crear_duplicate_or_append_witness:
  "cedula ana \<in> set (claves uno) \<and>
   crear ana uno = (Inl (ValueError_cedula_duplicada (cedula ana)), Integro uno) \<and>
   cedula luis \<notin> set (claves uno) \<and> registro_codificable (serializar luis) \<and>
   crear luis uno = (Inr True, Integro dos) \<and>
   cargar_datos dos = [serializar ana, serializar luis] \<and>
   crear luis dos = (Inl (ValueError_cedula_duplicada (cedula luis)), Integro dos) \<and>
   count_list (claves dos) (cedula luis) = 1"
proof -
  have p: "cedula ana \<in> set (claves uno)"
    by (simp add: claves_def cargar_uno r_cedula_serializar)
  have a: "cedula luis \<notin> set (claves uno)"
    using cedula_ana_luis by (simp add: claves_def cargar_uno r_cedula_serializar)
  have d: "Some (Contenido (cargar_datos uno @ [serializar luis])) = dos"
    by (simp add: cargar_uno dos_def)
  show ?thesis
    using p a d codificable_luis crear_duplicate_or_append [of ana uno ana]
      crear_duplicate_or_append [of luis uno luis]
    by (simp add: cargar_uno)
qed

text \<open>
  Claim C4 as stated fails twice. On the file \<open>repetidos\<close> the creation of an employee
  with the stored key raises and leaves the file unchanged, and the file holds two records
  for that key, not one. And for an employee whose key is absent but holds a lone
  surrogate, the creation appends nothing: it raises \<open>UnicodeEncodeError\<close> and leaves the
  file truncated.
\<close>

theorem crear_exactly_one_counterexample:
  "crear ana None = (Inr True, Integro uno) \<and>
   crear luis uno = (Inr True, Integro dos) \<and>
   actualizar (cedula ana) luis dos = (Inr True, Integro repetidos) \<and>
   cedula luis \<in> set (claves repetidos) \<and>
   crear luis repetidos = (Inl (ValueError_cedula_duplicada (cedula luis)), Integro repetidos) \<and>
   count_list (claves repetidos) (cedula luis) = 2 \<and>
   Empleado_init 5 [55296] (py_str ''Eva'') 900 (py_str ''Ventas'') (py_str ''Cajera'') =
     Inr sustituto \<and>
   cedula sustituto \<notin> set (claves uno) \<and>
   crear sustituto uno = (Inl UnicodeEncodeError, Truncado)"
proof -
  have p: "cedula luis \<in> set (claves repetidos)"
    by (simp add: claves_def cargar_repetidos r_cedula_serializar)
  have n: "count_list (claves repetidos) (cedula luis) = 2"
    by (simp add: claves_def cargar_repetidos r_cedula_serializar)
  have i: "Empleado_init 5 [55296] (py_str ''Eva'') 900 (py_str ''Ventas'') (py_str ''Cajera'') =
     Inr sustituto"
    by (simp add: Empleado_init_def sustituto_def strip_def isspace_def py_str_def)
  have a: "cedula sustituto \<notin> set (claves uno)"
    by (simp add: claves_def cargar_uno r_cedula_serializar) (simp add: sustituto_def ana_def py_str_def)
  show ?thesis
    using repetidos_alcanzado p n i a crear_presente [OF p]
      crear_no_codificable [OF a no_codificable_sustituto]
    by simp
qed

subsection \<open>Update\<close>

lemma primer_indice_None: "primer_indice c xs k = None \<longleftrightarrow> c \<notin> r_cedula ` set xs"
  by (induction xs arbitrary: k) auto

lemma primer_indice_Some:
  "primer_indice c xs k = Some m \<Longrightarrow>
     k \<le> m \<and> m - k < length xs \<and> r_cedula (xs ! (m - k)) = c \<and> (\<forall>j < m - k. r_cedula (xs ! j) \<noteq> c)"
proof (induction xs arbitrary: k)
  case Nil then show ?case by simp
next
  case (Cons x xs)
  show ?case
  proof (cases "r_cedula x = c")
    case True with Cons.prems show ?thesis by simp
  next
    case False
    with Cons.prems have "primer_indice c xs (Suc k) = Some m" by simp
    from Cons.IH[OF this] have ih: "Suc k \<le> m" "m - Suc k < length xs" "r_cedula (xs ! (m - Suc k)) = c"
      "\<forall>j < m - Suc k. r_cedula (xs ! j) \<noteq> c" by auto
    then obtain d where d: "m - k = Suc d" "m - Suc k = d" by (metis Suc_diff_le diff_Suc_Suc)
    show ?thesis using ih False d by (auto simp: nth_Cons less_Suc_eq_0_disj)
  qed
qed

lemma list_all_update:
  "list_all P xs \<Longrightarrow> P x \<Longrightarrow> list_all P (xs[i := x])"
  by (induction xs arbitrary: i) (auto split: nat.splits)

lemma actualizar_no_codificable:
  "c \<in> set (claves f) \<Longrightarrow> \<not> registro_codificable (serializar e) \<Longrightarrow>
     actualizar c e f = (Inl UnicodeEncodeError, Truncado)"
proof -
  assume p: "c \<in> set (claves f)" and n: "\<not> registro_codificable (serializar e)"
  from p have "primer_indice c (cargar_datos f) 0 \<noteq> None"
    by (simp add: primer_indice_None claves_def)
  then obtain i where i: "primer_indice c (cargar_datos f) 0 = Some i" by auto
  from primer_indice_Some [OF i] have "i < length (cargar_datos f)" by simp
  then have "serializar e \<in> set ((cargar_datos f)[i := serializar e])"
    by (simp add: set_update_memI)
  with n have "\<not> list_all registro_codificable ((cargar_datos f)[i := serializar e])"
    by (auto simp: list_all_iff)
  then show ?thesis by (simp add: actualizar_def i guardar_datos_def)
qed

text \<open>
  Claim C5, as amended. When no stored record has the key, \<open>actualizar\<close> returns \<open>False\<close>
  and the file is what it was. When some record has it and the text of the employee is
  encodable, \<open>actualizar\<close> returns \<open>True\<close> and the file is rewritten with the first such
  record, at index \<open>i\<close>, replaced by the serialized employee: the list has the same length,
  and every other index holds what it held.
\<close>

theorem actualizar_first_match:
  "(c \<notin> set (claves f) \<longrightarrow> actualizar c e f = (Inr False, Integro f)) \<and>
   (c \<in> set (claves f) \<and> registro_codificable (serializar e) \<longrightarrow>
      (\<exists>i < length (cargar_datos f).
          r_cedula (cargar_datos f ! i) = c \<and>
          (\<forall>j < i. r_cedula (cargar_datos f ! j) \<noteq> c) \<and>
          actualizar c e f =
            (Inr True, Integro (Some (Contenido ((cargar_datos f)[i := serializar e])))) \<and>
          cargar_datos (Some (Contenido ((cargar_datos f)[i := serializar e]))) =
            (cargar_datos f)[i := serializar e] \<and>
          length ((cargar_datos f)[i := serializar e]) = length (cargar_datos f) \<and>
          (cargar_datos f)[i := serializar e] ! i = serializar e \<and>
          (\<forall>j < length (cargar_datos f). j \<noteq> i \<longrightarrow>
              (cargar_datos f)[i := serializar e] ! j = cargar_datos f ! j)))"
proof (intro conjI impI)
  assume "c \<notin> set (claves f)"
  then have "primer_indice c (cargar_datos f) 0 = None"
    by (simp add: primer_indice_None claves_def)
  then show "actualizar c e f = (Inr False, Integro f)" by (simp add: actualizar_def)
next
  assume h: "c \<in> set (claves f) \<and> registro_codificable (serializar e)"
  then have "primer_indice c (cargar_datos f) 0 \<noteq> None"
    by (simp add: primer_indice_None claves_def)
  then obtain i where i: "primer_indice c (cargar_datos f) 0 = Some i" by auto
  from primer_indice_Some[OF i] have p: "i < length (cargar_datos f)"
    "r_cedula (cargar_datos f ! i) = c" "\<forall>j < i. r_cedula (cargar_datos f ! j) \<noteq> c" by auto
  have ok: "list_all registro_codificable ((cargar_datos f)[i := serializar e])"
    using h by (simp add: list_all_update cargar_datos_codificables)
  have r: "actualizar c e f =
      (Inr True, Integro (Some (Contenido ((cargar_datos f)[i := serializar e]))))"
    using ok by (simp add: actualizar_def i guardar_datos_def)
  have s: "cargar_datos (Some (Contenido ((cargar_datos f)[i := serializar e]))) =
      (cargar_datos f)[i := serializar e]"
    using ok by (rule cargar_Contenido)
  show "\<exists>i < length (cargar_datos f).
          r_cedula (cargar_datos f ! i) = c \<and>
          (\<forall>j < i. r_cedula (cargar_datos f ! j) \<noteq> c) \<and>
          actualizar c e f =
            (Inr True, Integro (Some (Contenido ((cargar_datos f)[i := serializar e])))) \<and>
          cargar_datos (Some (Contenido ((cargar_datos f)[i := serializar e]))) =
            (cargar_datos f)[i := serializar e] \<and>
          length ((cargar_datos f)[i := serializar e]) = length (cargar_datos f) \<and>
          (cargar_datos f)[i := serializar e] ! i = serializar e \<and>
          (\<forall>j < length (cargar_datos f). j \<noteq> i \<longrightarrow>
              (cargar_datos f)[i := serializar e] ! j = cargar_datos f ! j)"
    using p r s by (intro exI[of _ i]) simp
qed

lemma codificable_luis_1300: "registro_codificable (serializar (luis\<lparr>sueldo := 1300\<rparr>))"
  by (simp add: registro_codificable_def codificable_def serializar_def luis_def py_str_def)

theorem actualizar_first_match_witness:
  "cedula ana \<notin> set (claves solo_luis) \<and>
   actualizar (cedula ana) ana solo_luis = (Inr False, Integro solo_luis) \<and>
   cedula luis \<in> set (claves dos) \<and>
   registro_codificable (serializar (luis\<lparr>sueldo := 1300\<rparr>)) \<and>
   actualizar (cedula luis) (luis\<lparr>sueldo := 1300\<rparr>) dos =
     (Inr True,
      Integro (Some (Contenido [serializar ana, serializar (luis\<lparr>sueldo := 1300\<rparr>)])))"
proof -
  have a: "cedula ana \<notin> set (claves solo_luis)"
    using cedula_ana_luis by (simp add: claves_def cargar_solo_luis r_cedula_serializar)
  have p: "cedula luis \<in> set (claves dos)"
    by (simp add: claves_def cargar_dos r_cedula_serializar)
  from actualizar_first_match [of "cedula luis" dos "luis\<lparr>sueldo := 1300\<rparr>"] p codificable_luis_1300
  obtain i where i: "i < length (cargar_datos dos)" "r_cedula (cargar_datos dos ! i) = cedula luis"
    "actualizar (cedula luis) (luis\<lparr>sueldo := 1300\<rparr>) dos =
       (Inr True,
        Integro (Some (Contenido ((cargar_datos dos)[i := serializar (luis\<lparr>sueldo := 1300\<rparr>)]))))"
    by blast
  from i(1,2) have "i = 1"
    using cedula_ana_luis by (cases i) (simp_all add: cargar_dos r_cedula_serializar)
  with i(3) have u: "actualizar (cedula luis) (luis\<lparr>sueldo := 1300\<rparr>) dos =
     (Inr True,
      Integro (Some (Contenido [serializar ana, serializar (luis\<lparr>sueldo := 1300\<rparr>)])))"
    by (simp add: cargar_dos)
  show ?thesis
    using a p u codificable_luis_1300 actualizar_first_match [of "cedula ana" solo_luis ana]
    by simp
qed

text \<open>
  Claim C5 as stated fails for a replacement employee whose text holds a lone surrogate:
  the key is present, and the update does not return \<open>True\<close>. It raises
  \<open>UnicodeEncodeError\<close> and leaves the file truncated, so the records it was to keep are
  gone.
\<close>

theorem actualizar_unencodable_counterexample:
  "Empleado_init 5 [55296] (py_str ''Eva'') 900 (py_str ''Ventas'') (py_str ''Cajera'') =
     Inr sustituto \<and>
   cedula ana \<in> set (claves dos) \<and>
   cargar_datos dos = [serializar ana, serializar luis] \<and>
   actualizar (cedula ana) sustituto dos = (Inl UnicodeEncodeError, Truncado)"
proof -
  have i: "Empleado_init 5 [55296] (py_str ''Eva'') 900 (py_str ''Ventas'') (py_str ''Cajera'') =
     Inr sustituto"
    by (simp add: Empleado_init_def sustituto_def strip_def isspace_def py_str_def)
  have p: "cedula ana \<in> set (claves dos)"
    by (simp add: claves_def cargar_dos r_cedula_serializar)
  show ?thesis
    using i p cargar_dos actualizar_no_codificable [OF p no_codificable_sustituto]
    by simp
qed

subsection \<open>Deletion\<close>

lemma length_filter_claves:
  "length (filter (\<lambda>emp. r_cedula emp \<noteq> c) ds) + count_list (map r_cedula ds) c = length ds"
  by (induction ds) auto

lemma list_all_filter: "list_all P xs \<Longrightarrow> list_all P (filter Q xs)"
  by (induction xs) auto

text \<open>
  Claim C6, as amended. When no stored record has the key, \<open>eliminar\<close> returns \<open>False\<close> and
  the file is what it was. When some record has it, \<open>eliminar\<close> returns \<open>True\<close> and the
  file is rewritten with every record of that key removed, as many as there were, the
  others staying in their order; exactly one record goes when the key was stored once.
  The rewrite cannot fail: what stays was read from the file.
\<close>

theorem eliminar_all_matches:
  "(c \<notin> set (claves f) \<longrightarrow> eliminar c f = (Inr False, Integro f)) \<and>
   (c \<in> set (claves f) \<longrightarrow>
      eliminar c f =
        (Inr True,
         Integro (Some (Contenido (filter (\<lambda>emp. r_cedula emp \<noteq> c) (cargar_datos f))))) \<and>
      cargar_datos (Some (Contenido (filter (\<lambda>emp. r_cedula emp \<noteq> c) (cargar_datos f)))) =
        filter (\<lambda>emp. r_cedula emp \<noteq> c) (cargar_datos f) \<and>
      c \<notin> set (claves (Some (Contenido (filter (\<lambda>emp. r_cedula emp \<noteq> c) (cargar_datos f))))) \<and>
      length (filter (\<lambda>emp. r_cedula emp \<noteq> c) (cargar_datos f)) + count_list (claves f) c =
        length (cargar_datos f) \<and>
      (count_list (claves f) c = 1 \<longrightarrow>
         length (filter (\<lambda>emp. r_cedula emp \<noteq> c) (cargar_datos f)) + 1 =
           length (cargar_datos f)))"
proof (intro conjI impI)
  assume "c \<notin> set (claves f)"
  then have "filter (\<lambda>emp. r_cedula emp \<noteq> c) (cargar_datos f) = cargar_datos f"
    by (auto simp: claves_def filter_id_conv)
  then show "eliminar c f = (Inr False, Integro f)" by (simp add: eliminar_def)
next
  assume a: "c \<in> set (claves f)"
  let ?xs = "filter (\<lambda>emp. r_cedula emp \<noteq> c) (cargar_datos f)"
  have ok: "list_all registro_codificable ?xs"
    by (simp add: list_all_filter cargar_datos_codificables)
  from a have "count_list (claves f) c > 0" using count_list_0_iff[of "claves f" c] by auto
  with length_filter_claves[of c "cargar_datos f"]
  have lt: "length ?xs < length (cargar_datos f)"
    by (simp add: claves_def)
  then show "eliminar c f = (Inr True, Integro (Some (Contenido ?xs)))"
    using ok by (simp add: eliminar_def guardar_datos_def Let_def)
  show s: "cargar_datos (Some (Contenido ?xs)) = ?xs"
    using ok by (rule cargar_Contenido)
  show "c \<notin> set (claves (Some (Contenido ?xs)))"
    by (auto simp: claves_def s)
  show l: "length ?xs + count_list (claves f) c = length (cargar_datos f)"
    using length_filter_claves[of c "cargar_datos f"] by (simp add: claves_def)
  show "count_list (claves f) c = 1 \<Longrightarrow> length ?xs + 1 = length (cargar_datos f)"
    using l by simp
qed

theorem eliminar_all_matches_witness:
  "cedula ana \<notin> set (claves solo_luis) \<and>
   eliminar (cedula ana) solo_luis = (Inr False, Integro solo_luis) \<and>
   cedula ana \<in> set (claves dos) \<and>
   count_list (claves dos) (cedula ana) = 1 \<and>
   eliminar (cedula ana) dos = (Inr True, Integro solo_luis) \<and>
   length (cargar_datos solo_luis) + 1 = length (cargar_datos dos)"
proof -
  have a: "cedula ana \<notin> set (claves solo_luis)"
    using cedula_ana_luis by (simp add: claves_def cargar_solo_luis r_cedula_serializar)
  have p: "cedula ana \<in> set (claves dos)"
    by (simp add: claves_def cargar_dos r_cedula_serializar)
  have q: "count_list (claves dos) (cedula ana) = 1"
    using cedula_ana_luis by (simp add: claves_def cargar_dos r_cedula_serializar)
  have d: "filter (\<lambda>emp. r_cedula emp \<noteq> cedula ana) (cargar_datos dos) = [serializar luis]"
    using cedula_ana_luis by (simp add: cargar_dos r_cedula_serializar)
  show ?thesis
    using a p q d eliminar_all_matches [of "cedula ana" solo_luis]
      eliminar_all_matches [of "cedula ana" dos]
    by (simp add: cargar_solo_luis cargar_dos solo_luis_def)
qed

text \<open>
  Claim C6 as stated fails on a file where the key is stored twice: the deletion takes
  both records away, not one.
\<close>

theorem eliminar_exactly_one_counterexample:
  "crear ana None = (Inr True, Integro uno) \<and>
   crear luis uno = (Inr True, Integro dos) \<and>
   actualizar (cedula ana) luis dos = (Inr True, Integro repetidos) \<and>
   cedula luis \<in> set (claves repetidos) \<and>
   eliminar (cedula luis) repetidos = (Inr True, Integro vacio) \<and>
   length (cargar_datos vacio) + 1 \<noteq> length (cargar_datos repetidos)"
proof -
  have e: "eliminar (cedula luis) repetidos = (Inr True, Integro vacio)"
    by (simp add: cargar_repetidos eliminar_def guardar_datos_def r_cedula_serializar vacio_def)
  show ?thesis
    using repetidos_alcanzado e
    by (simp add: claves_def cargar_repetidos cargar_vacio r_cedula_serializar)
qed

section \<open>Properties of construction and serialization\<close>

lemma Empleado_init_keyword:
  "Empleado_init 0 c n s d g =
     Inr \<lparr>cedula = c, nombre = n, sueldo = s, departamento = d, cargo = g\<rparr>"
  by (simp add: Empleado_init_def)

lemma Empleado_init_posicional:
  "Empleado_init 5 c n s d g =
     (if strip c = [] \<or> strip n = [] then Inl ValueError_texto_vacio
      else if s < 0 then Inl ValueError_numero_negativo
      else if strip d = [] \<or> strip g = [] then Inl ValueError_texto_vacio
      else Inr \<lparr>cedula = c, nombre = n, sueldo = s, departamento = d, cargo = g\<rparr>)"
  by (simp add: Empleado_init_def)

lemma deserializar_eq:
  "deserializar r =
     Inr \<lparr>cedula = r_cedula r, nombre = r_nombre r, sueldo = r_sueldo r,
          departamento = r_departamento r, cargo = r_cargo r\<rparr>"
  by (simp add: deserializar_def Empleado_init_keyword)

lemma deserializar_serializar: "deserializar (serializar e) = Inr e"
  by (simp add: deserializar_eq serializar_def)

lemma strip_empty_iff: "strip s = [] \<longleftrightarrow> (\<forall>c \<in> set s. isspace c)"
proof (cases "dropWhile isspace s = []")
  case True
  then have "\<forall>c \<in> set s. isspace c" by (simp add: dropWhile_eq_Nil_conv)
  moreover have "strip s = []" by (simp add: strip_def True)
  ultimately show ?thesis by simp
next
  case False
  then have "\<not> isspace (hd (dropWhile isspace s))" by (rule hd_dropWhile)
  moreover have "hd (dropWhile isspace s) \<in> set (dropWhile isspace s)" using False by simp
  ultimately have "\<not> (\<forall>x \<in> set (dropWhile isspace s). isspace x)" by blast
  then have "strip s \<noteq> []" by (simp add: strip_def dropWhile_eq_Nil_conv)
  moreover have "\<not> (\<forall>c \<in> set s. isspace c)" using False by (simp add: dropWhile_eq_Nil_conv)
  ultimately show ?thesis by blast
qed

lemma valido_ana: "valido ana"
  by (simp add: valido_def ana_def py_str_def strip_def isspace_def)

lemma deserializar_todos_eq:
  "deserializar_todos rs =
     Inr (map (\<lambda>r. \<lparr>cedula = r_cedula r, nombre = r_nombre r, sueldo = r_sueldo r,
                     departamento = r_departamento r, cargo = r_cargo r\<rparr>) rs)"
  by (induction rs) (simp_all add: deserializar_eq)

lemma listar_eq:
  "listar f =
     Inr (map (\<lambda>r. \<lparr>cedula = r_cedula r, nombre = r_nombre r, sueldo = r_sueldo r,
                     departamento = r_departamento r, cargo = r_cargo r\<rparr>) (cargar_datos f))"
  by (simp add: listar_def deserializar_todos_eq)

text \<open>
  Claim C7 at a failing input. The constructor called with keyword arguments returns an
  employee whose key is empty and whose salary is negative; the same values passed
  positionally are refused.
\<close>

theorem keyword_construction_unvalidated:
  "Empleado_init 0 [] (py_str ''Ana'') (- 5) (py_str ''Ventas'') (py_str ''Cajera'') =
     Inr \<lparr>cedula = [], nombre = py_str ''Ana'', sueldo = - 5,
          departamento = py_str ''Ventas'', cargo = py_str ''Cajera''\<rparr> \<and>
   Empleado_init 5 [] (py_str ''Ana'') (- 5) (py_str ''Ventas'') (py_str ''Cajera'') =
     Inl ValueError_texto_vacio"
  by (simp add: Empleado_init_def strip_def)

text \<open>
  Claim C8. For every valid employee, deserializing its serialized form gives the
  employee back.
\<close>

theorem deserializar_serializar_roundtrip: "valido e \<Longrightarrow> deserializar (serializar e) = Inr e"
  by (rule deserializar_serializar)

theorem deserializar_serializar_roundtrip_witness: "valido ana \<and> deserializar (serializar ana) = Inr ana"
  using valido_ana deserializar_serializar_roundtrip [of ana] by simp

text \<open>
  Claim C10. The constructor called with keyword arguments only never raises, whatever
  the values. So \<open>deserializar\<close> turns a stored record with blank key, empty name and
  negative salary into an employee, and \<open>obtener\<close> and \<open>listar\<close> load it.
\<close>

theorem keyword_construction_bypasses_validation:
  "(\<forall>c n s d g. Empleado_init 0 c n s d g =
       Inr \<lparr>cedula = c, nombre = n, sueldo = s, departamento = d, cargo = g\<rparr>) \<and>
   strip (r_cedula registro_invalido) = [] \<and>
   strip (r_nombre registro_invalido) = [] \<and>
   r_sueldo registro_invalido < 0 \<and>
   deserializar registro_invalido =
     Inr \<lparr>cedula = py_str '' '', nombre = [], sueldo = - 5, departamento = [],
          cargo = py_str ''Cajera''\<rparr> \<and>
   obtener (py_str '' '') (Some (Contenido [serializar ana, registro_invalido])) =
     Inr (Some \<lparr>cedula = py_str '' '', nombre = [], sueldo = - 5, departamento = [],
                cargo = py_str ''Cajera''\<rparr>) \<and>
   listar (Some (Contenido [serializar ana, registro_invalido])) =
     Inr [ana, \<lparr>cedula = py_str '' '', nombre = [], sueldo = - 5, departamento = [],
                cargo = py_str ''Cajera''\<rparr>]"
proof -
  have i: "registro_codificable registro_invalido"
    by (simp add: registro_codificable_def codificable_def registro_invalido_def py_str_def)
  have c: "cargar_datos (Some (Contenido [serializar ana, registro_invalido])) =
      [serializar ana, registro_invalido]"
    by (rule cargar_Contenido) (simp add: codificable_ana i)
  show ?thesis
    unfolding obtener_def listar_def c
    by (simp add: Empleado_init_keyword deserializar_eq registro_invalido_def
        py_str_def strip_def isspace_def serializar_def ana_def)
qed

section \<open>Properties of payroll generation\<close>

lemma n_detalles_calcular_totales: "n_detalles (calcular_totales n) = n_detalles n"
  by (simp add: calcular_totales_def Let_def)

lemma n_id_calcular_totales: "n_id (calcular_totales n) = n_id n"
  by (simp add: calcular_totales_def Let_def)

lemma map_d_id_enumerate:
  "map d_id (map (\<lambda>(i, emp). calcular_detalle_empleado emp (int i + 1)) (enumerate k es)) =
     map (\<lambda>i. int i + 1) [k..<k + length es]"
  by (induction es arbitrary: k)
    (simp_all add: calcular_detalle_empleado_def DetalleNomina_init_def Let_def upt_rec)

lemma map_d_empleado_enumerate:
  "map d_empleado (map (\<lambda>(i, emp). calcular_detalle_empleado emp (int i + 1)) (enumerate k es)) = es"
  by (induction es arbitrary: k)
    (simp_all add: calcular_detalle_empleado_def DetalleNomina_init_def Let_def)

lemma generar_Inr:
  "listar f = Inr es \<Longrightarrow> es \<noteq> [] \<Longrightarrow>
   generar_nomina_mensual a f =
     Inr (calcular_totales ((Nomina_init 1 a)
            \<lparr>n_detalles := map (\<lambda>(i, emp). calcular_detalle_empleado emp (int i + 1))
                              (enumerate 0 es)\<rparr>))"
  by (simp add: generar_nomina_mensual_def)

text \<open>
  Claim C2. \<open>generar_nomina_mensual\<close> raises the no-employees error exactly when \<open>listar\<close>
  gives the empty list, and raises nothing else. When \<open>listar\<close> gives a non-empty list of
  \<open>N\<close> employees, it returns a payroll with \<open>id = 1\<close> and \<open>N\<close> line items whose ids are
  \<open>1, \<dots>, N\<close> and whose employees are the listed ones, in the listed order.
\<close>

theorem generar_nomina_mensual_ids:
  "(generar_nomina_mensual a f = Inl ValueError_sin_empleados \<longleftrightarrow> listar f = Inr []) \<and>
   (\<forall>err. generar_nomina_mensual a f = Inl err \<longrightarrow> err = ValueError_sin_empleados) \<and>
   (\<forall>es. listar f = Inr es \<and> es \<noteq> [] \<longrightarrow>
      (\<exists>n. generar_nomina_mensual a f = Inr n \<and> n_id n = 1 \<and>
           length (n_detalles n) = length es \<and>
           map d_id (n_detalles n) = map (\<lambda>i. int i + 1) [0..<length es] \<and>
           map d_empleado (n_detalles n) = es))"
proof (intro conjI allI impI)
  show "generar_nomina_mensual a f = Inl ValueError_sin_empleados \<longleftrightarrow> listar f = Inr []"
    by (auto simp: generar_nomina_mensual_def listar_eq)
next
  fix err assume "generar_nomina_mensual a f = Inl err"
  then show "err = ValueError_sin_empleados"
    by (auto simp: generar_nomina_mensual_def listar_eq split: if_splits)
next
  fix es assume h: "listar f = Inr es \<and> es \<noteq> []"
  let ?n = "calcular_totales ((Nomina_init 1 a)
            \<lparr>n_detalles := map (\<lambda>(i, emp). calcular_detalle_empleado emp (int i + 1))
                              (enumerate 0 es)\<rparr>)"
  have "generar_nomina_mensual a f = Inr ?n" using h by (simp add: generar_Inr)
  moreover have "n_id ?n = 1" by (simp add: n_id_calcular_totales Nomina_init_def)
  moreover have "length (n_detalles ?n) = length es" by (simp add: n_detalles_calcular_totales)
  moreover have "map d_id (n_detalles ?n) = map (\<lambda>i. int i + 1) [0..<length es]"
    using map_d_id_enumerate [of 0 es] by (simp add: n_detalles_calcular_totales)
  moreover have "map d_empleado (n_detalles ?n) = es"
    using map_d_empleado_enumerate [of 0 es] by (simp add: n_detalles_calcular_totales)
  ultimately show "\<exists>n. generar_nomina_mensual a f = Inr n \<and> n_id n = 1 \<and>
           length (n_detalles n) = length es \<and>
           map d_id (n_detalles n) = map (\<lambda>i. int i + 1) [0..<length es] \<and>
           map d_empleado (n_detalles n) = es"
    by blast
qed

theorem generar_nomina_mensual_ids_witness:
  "listar dos = Inr [ana, luis] \<and> [ana, luis] \<noteq> [] \<and>
   (\<exists>n. generar_nomina_mensual (py_str ''202404'') dos = Inr n \<and> n_id n = 1 \<and>
        length (n_detalles n) = 2 \<and>
        map d_id (n_detalles n) = [1, 2] \<and>
        map d_empleado (n_detalles n) = [ana, luis]) \<and>
   listar None = Inr [] \<and>
   generar_nomina_mensual (py_str ''202404'') None = Inl ValueError_sin_empleados"
proof -
  have l: "listar dos = Inr [ana, luis]"
    by (simp add: listar_eq cargar_dos serializar_def)
  have e: "listar None = Inr []"
    by (simp add: listar_eq cargar_datos_def)
  have u: "[0..<2] = [0, Suc 0]"
    by (simp add: upt_rec)
  show ?thesis
    using l e u generar_nomina_mensual_ids [of "py_str ''202404''" dos]
      generar_nomina_mensual_ids [of "py_str ''202404''" None]
    by (simp add: numeral_2_eq_2)
qed

section \<open>Properties of the payroll computation\<close>

subsection \<open>The line item\<close>

lemma round_half_even_nearest: "\<bar>x - of_int (round_half_even x)\<bar> \<le> 1 / 2"
proof -
  have "of_int \<lfloor>x\<rfloor> \<le> x" "x < of_int \<lfloor>x\<rfloor> + 1" by linarith+
  then show ?thesis by (auto simp: round_half_even_def Let_def)
qed

lemma round_half_even_tie:
  "\<bar>x - of_int (round_half_even x)\<bar> = 1 / 2 \<Longrightarrow> even (round_half_even x)"
proof -
  have "of_int \<lfloor>x\<rfloor> \<le> x" "x < of_int \<lfloor>x\<rfloor> + 1" by linarith+
  then show "\<bar>x - of_int (round_half_even x)\<bar> = 1 / 2 \<Longrightarrow> even (round_half_even x)"
    by (auto simp: round_half_even_def Let_def split: if_splits)
qed

text \<open>
  Claim C1. For an employee with salary \<open>S\<close>, bonus \<open>b\<close> and loan \<open>l\<close>, the line item has
  gross income \<open>S + b\<close>, social-security contribution \<open>round(S * 0.0945, 2)\<close>, total
  deductions contribution \<open>+ l\<close> and net pay gross income \<open>-\<close> total deductions, each
  operation being Python's on floats; the contribution is the only field rounded to
  decimals. That rounding takes the integer nearest to a hundred times the product, and
  the even one of the two when the product lies halfway. The service calls the
  constructor with the employee's salary and the two constants of \<open>Nomina\<close>.
\<close>

theorem detalle_nomina_formulas:
  "d_tot_ing (DetalleNomina_init i e S b l) = fl (S + b) \<and>
   d_iess (DetalleNomina_init i e S b l) =
     fl (of_int (round_half_even (fl (S * fl (945 / 10000)) * 100)) / 100) \<and>
   d_tot_des (DetalleNomina_init i e S b l) = fl (d_iess (DetalleNomina_init i e S b l) + l) \<and>
   d_neto (DetalleNomina_init i e S b l) =
     fl (d_tot_ing (DetalleNomina_init i e S b l) - d_tot_des (DetalleNomina_init i e S b l)) \<and>
   d_sueldo (DetalleNomina_init i e S b l) = S \<and>
   d_bono (DetalleNomina_init i e S b l) = b \<and>
   d_prestamo (DetalleNomina_init i e S b l) = l \<and>
   calcular_detalle_empleado e i = DetalleNomina_init i e (sueldo e) BONO PRESTAMO \<and>
   \<bar>x - of_int (round_half_even x)\<bar> \<le> 1 / 2 \<and>
   (\<bar>x - of_int (round_half_even x)\<bar> = 1 / 2 \<longrightarrow> even (round_half_even x))"
  using round_half_even_nearest [of x] round_half_even_tie [of x]
  by (simp add: DetalleNomina_init_def Let_def py_round2_def calcular_detalle_empleado_def)

lemma detalle_ana:
  "calcular_detalle_empleado ana 1 =
     \<lparr>d_id = 1, d_empleado = ana, d_sueldo = 800, d_bono = 50, d_tot_ing = 850,
      d_iess = fl (756 / 10), d_prestamo = 20, d_tot_des = fl (956 / 10),
      d_neto = fl (7544 / 10)\<rparr>"
  by code_simp

lemma detalle_luis:
  "calcular_detalle_empleado luis 2 =
     \<lparr>d_id = 2, d_empleado = luis, d_sueldo = 1200, d_bono = 50, d_tot_ing = 1250,
      d_iess = fl (1134 / 10), d_prestamo = 20, d_tot_des = fl (1334 / 10),
      d_neto = fl (11166 / 10)\<rparr>"
  by code_simp

lemma suma_ingresos: "py_sum [850, 1250] = 2100"
  by code_simp

lemma suma_descuentos: "py_sum [fl (956 / 10), fl (1334 / 10)] = 229"
  by code_simp

lemma resta_neto: "fl (2100 - 229) = 1871"
  by code_simp

lemma round_tie_example: "round_half_even (25 / 2) = 12"
  by code_simp

text \<open>
  The product is the float product: for the salary \<open>10.0\<close> it lies above \<open>0.945\<close>, and the
  contribution is \<open>0.95\<close>, not the \<open>0.94\<close> of a tie at \<open>0.945\<close>.
\<close>

lemma iess_sueldo_diez: "d_iess (DetalleNomina_init 1 ana 10 50 20) = fl (95 / 100)"
  by code_simp

lemma sueldo_ana: "sueldo ana = 800"
  by (simp add: ana_def)

theorem detalle_nomina_formulas_witness:
  "d_tot_ing (calcular_detalle_empleado ana 1) = fl (800 + 50) \<and>
   d_tot_ing (calcular_detalle_empleado ana 1) = 850 \<and>
   d_iess (calcular_detalle_empleado ana 1) = fl (756 / 10) \<and>
   d_tot_des (calcular_detalle_empleado ana 1) = fl (956 / 10) \<and>
   d_neto (calcular_detalle_empleado ana 1) = fl (7544 / 10) \<and>
   \<bar>25 / 2 - of_int (round_half_even (25 / 2))\<bar> = (1 / 2 :: rat) \<and>
   even (round_half_even (25 / 2))"
proof -
  have t: "\<bar>25 / 2 - of_int (round_half_even (25 / 2))\<bar> = (1 / 2 :: rat)"
    by (simp add: round_tie_example)
  have d: "d_tot_ing (calcular_detalle_empleado ana 1) = 850 \<and>
      d_iess (calcular_detalle_empleado ana 1) = fl (756 / 10) \<and>
      d_tot_des (calcular_detalle_empleado ana 1) = fl (956 / 10) \<and>
      d_neto (calcular_detalle_empleado ana 1) = fl (7544 / 10)"
    by (simp add: detalle_ana)
  show ?thesis
    using t d detalle_nomina_formulas [of 1 ana "sueldo ana" BONO PRESTAMO "25 / 2"]
    by (simp add: sueldo_ana BONO_def PRESTAMO_def)
qed

subsection \<open>The totals\<close>

lemma listar_dos: "listar dos = Inr [ana, luis]"
  by (simp add: listar_eq cargar_dos serializar_def)

lemma generar_ejemplo: "generar_nomina_mensual (py_str ''202404'') dos = Inr nomina_ejemplo"
  by (simp add: generar_nomina_mensual_def listar_dos enumerate_eq_zip upt_rec
      detalle_ana [simplified] detalle_luis [simplified] calcular_totales_def Let_def Nomina_init_def
      suma_ingresos [simplified] suma_descuentos [simplified] resta_neto [simplified] nomina_ejemplo_def)

text \<open>
  Claim C3. After \<open>calcular_totales\<close> the line items are the same and the three aggregates
  are computed from them: total income is the sum of the items' gross incomes, total
  deductions the sum of the items' total deductions, and the net total their difference.
  Every payroll that \<open>generar_nomina_mensual\<close> returns has at least one line item and
  these aggregates.
\<close>

theorem calcular_totales_sums:
  "n_detalles (calcular_totales n) = n_detalles n \<and>
   n_tot_ing (calcular_totales n) = py_sum (map d_tot_ing (n_detalles n)) \<and>
   n_tot_des (calcular_totales n) = py_sum (map d_tot_des (n_detalles n)) \<and>
   n_neto (calcular_totales n) =
     fl (n_tot_ing (calcular_totales n) - n_tot_des (calcular_totales n)) \<and>
   (generar_nomina_mensual a f = Inr m \<longrightarrow>
      1 \<le> length (n_detalles m) \<and>
      n_tot_ing m = py_sum (map d_tot_ing (n_detalles m)) \<and>
      n_tot_des m = py_sum (map d_tot_des (n_detalles m)) \<and>
      n_neto m = fl (n_tot_ing m - n_tot_des m))"
proof -
  have c: "n_detalles (calcular_totales n) = n_detalles n \<and>
   n_tot_ing (calcular_totales n) = py_sum (map d_tot_ing (n_detalles n)) \<and>
   n_tot_des (calcular_totales n) = py_sum (map d_tot_des (n_detalles n)) \<and>
   n_neto (calcular_totales n) =
     fl (n_tot_ing (calcular_totales n) - n_tot_des (calcular_totales n))" for n
    by (simp add: calcular_totales_def Let_def)
  have "1 \<le> length (n_detalles m) \<and>
      n_tot_ing m = py_sum (map d_tot_ing (n_detalles m)) \<and>
      n_tot_des m = py_sum (map d_tot_des (n_detalles m)) \<and>
      n_neto m = fl (n_tot_ing m - n_tot_des m)" if g: "generar_nomina_mensual a f = Inr m"
  proof -
    from g obtain es where es: "listar f = Inr es" "es \<noteq> []"
      "m = calcular_totales ((Nomina_init 1 a)
            \<lparr>n_detalles := map (\<lambda>(i, emp). calcular_detalle_empleado emp (int i + 1))
                              (enumerate 0 es)\<rparr>)"
      by (auto simp: generar_nomina_mensual_def split: sum.splits if_splits)
    have "length (n_detalles m) = length es" by (simp add: es(3) n_detalles_calcular_totales)
    then have "1 \<le> length (n_detalles m)" using es(2) by (cases es) simp_all
    then show ?thesis using c es(3) by metis
  qed
  then show ?thesis using c by blast
qed

theorem calcular_totales_sums_witness:
  "generar_nomina_mensual (py_str ''202404'') dos = Inr nomina_ejemplo \<and>
   1 \<le> length (n_detalles nomina_ejemplo) \<and>
   n_tot_ing nomina_ejemplo = py_sum (map d_tot_ing (n_detalles nomina_ejemplo)) \<and>
   n_tot_des nomina_ejemplo = py_sum (map d_tot_des (n_detalles nomina_ejemplo)) \<and>
   n_neto nomina_ejemplo = fl (n_tot_ing nomina_ejemplo - n_tot_des nomina_ejemplo) \<and>
   n_tot_ing nomina_ejemplo = 2100 \<and> n_tot_des nomina_ejemplo = 229 \<and>
   n_neto nomina_ejemplo = 1871"
proof -
  have v: "n_tot_ing nomina_ejemplo = 2100 \<and> n_tot_des nomina_ejemplo = 229 \<and>
      n_neto nomina_ejemplo = 1871"
    by (simp add: nomina_ejemplo_def)
  show ?thesis
    using v generar_ejemplo
      calcular_totales_sums [of nomina_ejemplo "py_str ''202404''" dos nomina_ejemplo]
    by blast
qed

subsection \<open>The summary of an empty payroll\<close>

text \<open>
  Claim C9, as amended. For a payroll without line items \<open>generar_estadisticas\<close> returns,
  without raising, a dictionary of exactly three entries, each the integer \<open>0\<close>: the
  number of employees, the average salary and the total net. The count of high salaries,
  the greatest and least net values and the two names are absent from it.
\<close>

theorem generar_estadisticas_empty:
  "n_detalles n = [] \<longrightarrow>
     generar_estadisticas n =
       [(''total_empleados'', VInt 0), (''promedio_sueldo'', VInt 0), (''total_neto'', VInt 0)] \<and>
     map_of (generar_estadisticas n) ''total_empleados'' = Some (VInt 0) \<and>
     map_of (generar_estadisticas n) ''empleados_alto_sueldo'' = None \<and>
     map_of (generar_estadisticas n) ''valor_mayor_neto'' = None \<and>
     map_of (generar_estadisticas n) ''valor_menor_neto'' = None \<and>
     map_of (generar_estadisticas n) ''empleado_mayor_neto'' = None \<and>
     map_of (generar_estadisticas n) ''empleado_menor_neto'' = None"
  by (simp add: generar_estadisticas_def)

theorem generar_estadisticas_empty_witness:
  "n_detalles (Nomina_init 1 (py_str ''202404'')) = [] \<and>
   generar_estadisticas (Nomina_init 1 (py_str ''202404'')) =
     [(''total_empleados'', VInt 0), (''promedio_sueldo'', VInt 0), (''total_neto'', VInt 0)] \<and>
   map_of (generar_estadisticas (Nomina_init 1 (py_str ''202404''))) ''empleado_mayor_neto'' = None"
proof -
  have e: "n_detalles (Nomina_init 1 (py_str ''202404'')) = []"
    by (simp add: Nomina_init_def)
  show ?thesis
    using e generar_estadisticas_empty [of "Nomina_init 1 (py_str ''202404'')"]
    by simp
qed

text \<open>
  Claim C9 as stated fails on the payroll just constructed: the count of high salaries
  and the greatest and least net values are not zero in the summary, they are missing.
\<close>

theorem generar_estadisticas_empty_counterexample:
  "n_detalles (Nomina_init 1 (py_str ''202404'')) = [] \<and>
   map_of (generar_estadisticas (Nomina_init 1 (py_str ''202404''))) ''empleados_alto_sueldo'' = None \<and>
   map_of (generar_estadisticas (Nomina_init 1 (py_str ''202404''))) ''valor_mayor_neto'' = None \<and>
   map_of (generar_estadisticas (Nomina_init 1 (py_str ''202404''))) ''valor_menor_neto'' = None"
  by (simp add: generar_estadisticas_def Nomina_init_def)

text \<open>The summary of the example payroll has these keys.\<close>

lemma estadisticas_ejemplo:
  "map_of (generar_estadisticas nomina_ejemplo) ''empleados_alto_sueldo'' = Some (VInt 1) \<and>
   map_of (generar_estadisticas nomina_ejemplo) ''total_empleados'' = Some (VInt 2)"
  by (simp add: generar_estadisticas_def nomina_ejemplo_def Let_def)

end
